theory Spec2Isabelle
  imports Main "HOL-Library.Sublist" "HOL-Library.Product_Lexorder" "HOL-Library.Monad_Syntax"
begin

section \<open>Go strings and the \<open>strings\<close> package\<close>

text \<open>
  A Go string is a sequence of bytes; \<^typ>\<open>string\<close> is a list of 8-bit characters, so the
  two agree. The functions below are the ones of package \<open>strings\<close> that package \<open>tsh\<close>
  calls, with the names they have there.
\<close>

definition LF :: char where
  "LF = CHR 0x0A"

definition HasPrefix :: "string \<Rightarrow> string \<Rightarrow> bool" where
  "HasPrefix s p = prefix p s"

text \<open>
  \<open>strings.Split(s, sep)\<close> for a separator of one byte, which is what every call of the
  package passes: the pieces between the separators, in order, always at least one piece.
\<close>

function Split :: "string \<Rightarrow> char \<Rightarrow> string list" where
  "Split s sep =
     (case dropWhile (\<lambda>c. c \<noteq> sep) s of
        [] \<Rightarrow> [s]
      | _ # rest \<Rightarrow> takeWhile (\<lambda>c. c \<noteq> sep) s # Split rest sep)"
  by pat_completeness auto
termination
proof (relation "measure (\<lambda>(s, sep). length s)")
  fix s :: string and sep :: char and x rest
  assume "dropWhile (\<lambda>c. c \<noteq> sep) s = x # rest"
  then have "length rest < length (dropWhile (\<lambda>c. c \<noteq> sep) s)"
    by simp
  also have "\<dots> \<le> length s"
    by (rule length_dropWhile_le)
  finally show "((rest, sep), (s, sep)) \<in> measure (\<lambda>(s, sep). length s)"
    by simp
qed simp

declare Split.simps [simp del]

text \<open>\<open>strings.Contains(s, substr)\<close>.\<close>

fun Contains :: "string \<Rightarrow> string \<Rightarrow> bool" where
  "Contains [] substr = (substr = [])"
| "Contains (c # cs) substr = (prefix substr (c # cs) \<or> Contains cs substr)"

text \<open>\<open>strings.TrimPrefix(s, prefix)\<close>.\<close>

definition TrimPrefix :: "string \<Rightarrow> string \<Rightarrow> string" where
  "TrimPrefix s p = (if HasPrefix s p then drop (length p) s else s)"

text \<open>
  \<open>strings.Replace(s, old, "", -1)\<close>: every occurrence of \<open>old\<close> is deleted, found from
  the left and not overlapping. The package only ever replaces by the empty string; with
  an empty \<open>old\<close> the result is \<open>s\<close> itself.
\<close>

function Replace_del :: "string \<Rightarrow> string \<Rightarrow> string" where
  "Replace_del s old =
     (if old = [] \<or> s = [] then s
      else if prefix old s then Replace_del (drop (length old) s) old
      else hd s # Replace_del (tl s) old)"
  by pat_completeness auto
termination
  by (relation "measure (\<lambda>(s, old). length s)") auto

declare Replace_del.simps [simp del]

text \<open>
  \<open>strings.TrimSpace\<close> cuts the white space of Unicode from both ends. Read as UTF-8, a
  white space rune is one of six ASCII bytes or one of the byte sequences of
  \<open>unicodeSpaces\<close> (U+0085, U+00A0, U+1680, U+2000 to U+200A, U+2028, U+2029, U+202F,
  U+205F, U+3000); bytes that are not valid UTF-8 decode to U+FFFD, which is not white
  space, so the cutting stops there.
\<close>

definition asciiSpace :: "char \<Rightarrow> bool" where
  "asciiSpace c = (c \<in> set [CHR 0x09, CHR 0x0A, CHR 0x0B, CHR 0x0C, CHR 0x0D, CHR 0x20])"

definition unicodeSpaces :: "string list" where
  "unicodeSpaces =
     [[CHR 0xC2, CHR 0x85], [CHR 0xC2, CHR 0xA0], [CHR 0xE1, CHR 0x9A, CHR 0x80],
      [CHR 0xE2, CHR 0x80, CHR 0x80], [CHR 0xE2, CHR 0x80, CHR 0x81],
      [CHR 0xE2, CHR 0x80, CHR 0x82], [CHR 0xE2, CHR 0x80, CHR 0x83],
      [CHR 0xE2, CHR 0x80, CHR 0x84], [CHR 0xE2, CHR 0x80, CHR 0x85],
      [CHR 0xE2, CHR 0x80, CHR 0x86], [CHR 0xE2, CHR 0x80, CHR 0x87],
      [CHR 0xE2, CHR 0x80, CHR 0x88], [CHR 0xE2, CHR 0x80, CHR 0x89],
      [CHR 0xE2, CHR 0x80, CHR 0x8A], [CHR 0xE2, CHR 0x80, CHR 0xA8],
      [CHR 0xE2, CHR 0x80, CHR 0xA9], [CHR 0xE2, CHR 0x80, CHR 0xAF],
      [CHR 0xE2, CHR 0x81, CHR 0x9F], [CHR 0xE3, CHR 0x80, CHR 0x80]]"

text \<open>The width in bytes of the white space rune a string starts with, 0 when there is none.\<close>

definition leadingSpace :: "string \<Rightarrow> nat" where
  "leadingSpace s =
     (case s of
        [] \<Rightarrow> 0
      | c # _ \<Rightarrow>
          if asciiSpace c then 1
          else (case find (\<lambda>w. prefix w s) unicodeSpaces of
                  None \<Rightarrow> 0
                | Some w \<Rightarrow> length w))"

text \<open>The same at the end of the string.\<close>

definition trailingSpace :: "string \<Rightarrow> nat" where
  "trailingSpace s =
     (case rev s of
        [] \<Rightarrow> 0
      | c # _ \<Rightarrow>
          if asciiSpace c then 1
          else (case find (\<lambda>w. suffix w s) unicodeSpaces of
                  None \<Rightarrow> 0
                | Some w \<Rightarrow> length w))"

function TrimLeftSpace :: "string \<Rightarrow> string" where
  "TrimLeftSpace s =
     (if leadingSpace s = 0 then s else TrimLeftSpace (drop (leadingSpace s) s))"
  by pat_completeness auto
termination
proof (relation "measure length")
  fix s :: string
  assume "leadingSpace s \<noteq> 0"
  then have "s \<noteq> []" "0 < leadingSpace s"
    by (auto simp: leadingSpace_def)
  then show "(drop (leadingSpace s) s, s) \<in> measure length"
    by simp
qed simp

function TrimRightSpace :: "string \<Rightarrow> string" where
  "TrimRightSpace s =
     (if trailingSpace s = 0 then s
      else TrimRightSpace (take (length s - trailingSpace s) s))"
  by pat_completeness auto
termination
proof (relation "measure length")
  fix s :: string
  assume "trailingSpace s \<noteq> 0"
  then have "s \<noteq> []" "0 < trailingSpace s"
    by (auto simp: trailingSpace_def)
  then show "(take (length s - trailingSpace s) s, s) \<in> measure length"
    by simp
qed simp

declare TrimLeftSpace.simps [simp del] TrimRightSpace.simps [simp del]

definition TrimSpace :: "string \<Rightarrow> string" where
  "TrimSpace s = TrimRightSpace (TrimLeftSpace s)"

section \<open>The host directory\<close>

text \<open>
  Modelled from the spec: \<open>config.Item\<close> and \<open>config.Node\<close> are declared in package
  \<open>config\<close>; the fields are the ones the source reads and writes (\<open>Hostname\<close>,
  \<open>Address\<close>, \<open>Items\<close>), the spec's HostEntry and HostDirectory.
\<close>

record Item =
  Hostname :: string
  Address :: string

record Node =
  Items :: "Item list"

definition emptyItem :: Item where
  "emptyItem = \<lparr>Hostname = [], Address = []\<rparr>"

definition emptyNode :: Node where
  "emptyNode = \<lparr>Items = []\<rparr>"

text \<open>
  The inner loop of \<open>parseNodesFromString\<close> over the pieces of one line: empty pieces are
  skipped, the loop breaks when \<open>infoCount\<close> is 2, the first piece kept goes to
  \<open>Hostname\<close> and the next to \<open>Address\<close>.
\<close>

fun scanTokens :: "string list \<Rightarrow> nat \<Rightarrow> Item \<Rightarrow> Item" where
  "scanTokens [] infoCount node = node"
| "scanTokens (s # ss) infoCount node =
     (if s = [] then scanTokens ss infoCount node
      else if infoCount = 2 then node
      else scanTokens ss (infoCount + 1)
             (if infoCount = 0 then node\<lparr>Hostname := s\<rparr> else node\<lparr>Address := s\<rparr>))"

text \<open>The outer loop over the lines, with the list being appended to.\<close>

fun nodeLoop :: "string list \<Rightarrow> Item list \<Rightarrow> Item list" where
  "nodeLoop [] nodeList = nodeList"
| "nodeLoop (line # rest) nodeList =
     (if HasPrefix line ''Node'' \<or> HasPrefix line ''---'' \<or> HasPrefix line '' ''
      then nodeLoop rest nodeList
      else (let node = scanTokens (Split line CHR '' '') 0 emptyItem
            in if node \<noteq> emptyItem then nodeLoop rest (nodeList @ [node])
               else nodeLoop rest nodeList))"

definition parseNodesFromString :: "string \<Rightarrow> Node" where
  "parseNodesFromString nodeStr = \<lparr>Items = nodeLoop (Split nodeStr LF) []\<rparr>"

text \<open>
  The directory parser as the spec words it: a header, separator or space-led line gives
  nothing; any other line is cut at spaces, the empty pieces are dropped, and the first
  two pieces left are the hostname and the address.
\<close>

definition spec_lineEntries :: "string \<Rightarrow> Item list" where
  "spec_lineEntries line =
     (if HasPrefix line ''Node'' \<or> HasPrefix line ''---'' \<or> HasPrefix line '' '' then []
      else (case filter (\<lambda>t. t \<noteq> []) (Split line CHR '' '') of
              [] \<Rightarrow> []
            | [h] \<Rightarrow> [\<lparr>Hostname = h, Address = []\<rparr>]
            | h # a # _ \<Rightarrow> [\<lparr>Hostname = h, Address = a\<rparr>]))"

section \<open>Versions\<close>

text \<open>
  Modelled from the spec: the type \<open>Version\<close> is declared in a file of package \<open>tsh\<close>
  that is not among the sources; the spec has it as three non-negative integers, and
  \<open>NewTSH\<close> names its fields.
\<close>

record Version =
  Major :: nat
  Minor :: nat
  Patch :: nat

text \<open>
  The errors of the package: the variable \<open>ErrUnsupportedVersion\<close>, the error of a banner
  that does not parse, \<open>fmt.Errorf("std out is empty")\<close>, \<open>errors.New\<close> of the text of an
  error stream, the error of \<open>exec.Cmd.Run\<close>, and the error of \<open>url.Parse\<close>.
\<close>

datatype error =
    ErrUnsupportedVersion
  | ParseError
  | StdOutEmpty
  | errors_New string
  | RunError string
  | UrlError string

definition isDigit :: "char \<Rightarrow> bool" where
  "isDigit c = (48 \<le> (of_char c :: nat) \<and> (of_char c :: nat) \<le> 57)"

definition decimal :: "string \<Rightarrow> int" where
  "decimal s = foldl (\<lambda>n c. 10 * n + (of_char c - 48)) 0 s"

text \<open>A decimal number: digits, at least one.\<close>

definition Atoi :: "string \<Rightarrow> nat option" where
  "Atoi s = (if s \<noteq> [] \<and> list_all isDigit s then Some (nat (decimal s)) else None)"

text \<open>
  Modelled from the spec: \<open>NewVersion\<close> is declared with \<open>Version\<close>, outside the sources.
  By the spec it takes the first token of the banner that leads with \<open>v\<close> and has the
  shape major.minor.patch, at least three components between dots; it keeps the first
  three components and ignores a fourth; it fails when there is no such token or when one
  of the three is not a number.
\<close>

definition versionShaped :: "string \<Rightarrow> bool" where
  "versionShaped tok = (HasPrefix tok ''v'' \<and> 3 \<le> length (Split (drop 1 tok) CHR ''.''))"

definition NewVersion :: "string \<Rightarrow> error + Version" where
  "NewVersion s =
     (case find versionShaped (Split s CHR '' '') of
        None \<Rightarrow> Inl ParseError
      | Some tok \<Rightarrow>
          (case map Atoi (take 3 (Split (drop 1 tok) CHR ''.'')) of
             [Some a, Some b, Some c] \<Rightarrow> Inr \<lparr>Major = a, Minor = b, Patch = c\<rparr>
           | _ \<Rightarrow> Inl ParseError))"

text \<open>
  Modelled from the spec: the method \<open>IsSupported\<close> is declared with \<open>Version\<close>, outside
  the sources. \<open>m.IsSupported(c)\<close> has the minimum as its receiver, as in the call
  \<open>t.minVersion.IsSupported(cv)\<close>; by the spec it compares the candidate with the minimum,
  major first, then minor, then patch, and equal versions are supported.
\<close>

definition IsSupported :: "Version \<Rightarrow> Version \<Rightarrow> bool" where
  "IsSupported m c =
     (if Major c \<noteq> Major m then Major m < Major c
      else if Minor c \<noteq> Minor m then Minor m < Minor c
      else Patch m \<le> Patch c)"

section \<open>The status of the proxy\<close>

text \<open>
  Modelled from the spec: \<open>config.ProxyStatus\<close> is declared in package \<open>config\<close>; the fields
  are the three that \<open>parseStringToStatus\<close> writes.
\<close>

record ProxyStatus =
  LoginAs :: string
  Roles :: "string list"
  UserLogins :: "string list"

definition emptyStatus :: ProxyStatus where
  "emptyStatus = \<lparr>LoginAs = [], Roles = [], UserLogins = []\<rparr>"

definition trimSliceString :: "string list \<Rightarrow> string list" where
  "trimSliceString list = map TrimSpace list"

text \<open>
  The loop of \<open>parseStringToStatus\<close> over the lines. The two index reads \<open>kv[0]\<close> and
  \<open>kv[1]\<close> are behind the test of the length, so they are in range.
\<close>

fun statusLoop :: "string list \<Rightarrow> ProxyStatus \<Rightarrow> ProxyStatus" where
  "statusLoop [] res = res"
| "statusLoop (line # rest) res =
     (let kv = Split line CHR '':''
      in if length kv \<le> 1 then statusLoop rest res
         else (let key = TrimSpace (kv ! 0)
               in if key = ''Logged in as''
                  then statusLoop rest (res\<lparr>LoginAs := TrimSpace (kv ! 1)\<rparr>)
                  else if key = ''Roles''
                  then statusLoop rest
                         (res\<lparr>Roles := trimSliceString (Split (TrimSpace (kv ! 1)) CHR '','')\<rparr>)
                  else if key = ''Logins''
                  then statusLoop rest
                         (res\<lparr>UserLogins := trimSliceString (Split (TrimSpace (kv ! 1)) CHR '','')\<rparr>)
                  else statusLoop rest res))"

definition parseStringToStatus :: "string \<Rightarrow> ProxyStatus" where
  "parseStringToStatus str = statusLoop (Split (Replace_del str ''>'') LF) emptyStatus"

section \<open>Time stamps\<close>

text \<open>
  A \<open>time.Time\<close> is read as an instant: the count of nanoseconds since
  0001-01-01 00:00:00 UTC, which is the zero value of the type, so the zero \<open>Time\<close> is 0
  and \<open>t.Before(u)\<close> is \<open>t < u\<close>.
\<close>

type_synonym Time = int

definition isLeap :: "int \<Rightarrow> bool" where
  "isLeap year = (year mod 4 = 0 \<and> (year mod 100 \<noteq> 0 \<or> year mod 400 = 0))"

definition daysIn :: "nat \<Rightarrow> int \<Rightarrow> nat" where
  "daysIn month year =
     (if month = 2 \<and> isLeap year then 29
      else [31, 28, 31, 30, 31, 30, 31, 31, 30, 31, 30, 31] ! (month - 1))"

definition daysBefore :: "nat \<Rightarrow> int \<Rightarrow> nat" where
  "daysBefore month year =
     [0, 31, 59, 90, 120, 151, 181, 212, 243, 273, 304, 334] ! (month - 1) +
     (if 2 < month \<and> isLeap year then 1 else 0)"

text \<open>
  \<open>time.Date\<close> in UTC for a month from 1 to 12 and a day of that month, in the proleptic
  Gregorian calendar.
\<close>

definition Date :: "int \<Rightarrow> nat \<Rightarrow> nat \<Rightarrow> nat \<Rightarrow> nat \<Rightarrow> nat \<Rightarrow> int \<Rightarrow> Time" where
  "Date year month day hour minute sec nsec =
     (let y = year - 1;
          days = 365 * y + y div 4 - y div 100 + y div 400
                 + int (daysBefore month year) + int day - 1
      in (days * 86400 + int hour * 3600 + int minute * 60 + int sec) * 1000000000 + nsec)"

text \<open>
  The pieces of \<open>time.Parse\<close> that the layout \<open>2006-01-02 15:04:05 -0700 WIB\<close> runs
  through. \<open>getnum\<close> reads one or two digits, two when \<open>fixed\<close>; \<open>skip\<close> matches the text
  between two fields, a space of the layout standing for any run of spaces of the value,
  also an empty one at the end of the value.
\<close>

definition digitVal :: "char \<Rightarrow> nat" where
  "digitVal c = of_char c - 48"

definition getnum :: "string \<Rightarrow> bool \<Rightarrow> (nat \<times> string) option" where
  "getnum s fixed =
     (case s of
        [] \<Rightarrow> None
      | c # r \<Rightarrow>
          if \<not> isDigit c then None
          else (case r of
                  [] \<Rightarrow> if fixed then None else Some (digitVal c, r)
                | d # r' \<Rightarrow>
                    if \<not> isDigit d then (if fixed then None else Some (digitVal c, r))
                    else Some (digitVal c * 10 + digitVal d, r')))"

definition cutspace :: "string \<Rightarrow> string" where
  "cutspace s = dropWhile (\<lambda>c. c = CHR '' '') s"

function skip :: "string \<Rightarrow> string \<Rightarrow> string option" where
  "skip v [] = Some v"
| "skip v (p # ps) =
     (if p = CHR '' ''
      then (if v \<noteq> [] \<and> hd v \<noteq> CHR '' '' then None
            else skip (cutspace v) (cutspace ps))
      else (case v of
              [] \<Rightarrow> None
            | c # cs \<Rightarrow> if c \<noteq> p then None else skip cs ps))"
  by pat_completeness auto
termination
proof (relation "measure (\<lambda>(v, p). length p)")
  fix v :: string and p :: char and ps :: string
  have "length (cutspace ps) \<le> length ps"
    unfolding cutspace_def by (rule length_dropWhile_le)
  then show "((cutspace v, cutspace ps), (v, p # ps)) \<in> measure (\<lambda>(v, p). length p)"
    by simp
qed simp_all

definition guard :: "bool \<Rightarrow> unit option" where
  "guard b = (if b then Some () else None)"

text \<open>The year: four bytes, all of them digits.\<close>

definition stdLongYear :: "string \<Rightarrow> (int \<times> string) option" where
  "stdLongYear v =
     (if length v < 4 \<or> \<not> isDigit (hd v) then None
      else map_option (\<lambda>y. (int y, drop 4 v)) (Atoi (take 4 v)))"

text \<open>
  After the seconds, a fraction that the layout does not name is read all the same: a
  period or comma and the digits after it, of which the first nine count.
\<close>

definition fracSecond :: "string \<Rightarrow> int \<times> string" where
  "fracSecond v =
     (case v of
        c # d # _ \<Rightarrow>
          if (c = CHR ''.'' \<or> c = CHR '','') \<and> isDigit d
          then (let digits = takeWhile isDigit (tl v); kept = take 9 digits
                in (decimal kept * 10 ^ (9 - length kept), drop (1 + length digits) v))
          else (0, v)
      | _ \<Rightarrow> (0, v))"

text \<open>The zone offset \<open>-0700\<close>: a sign and four digits, in seconds east of UTC.\<close>

definition stdNumTZ :: "string \<Rightarrow> (int \<times> string) option" where
  "stdNumTZ v =
     (if length v < 5 then None
      else do {
        (hr, _) \<leftarrow> getnum (take 2 (drop 1 v)) True;
        (mm, _) \<leftarrow> getnum (take 2 (drop 3 v)) True;
        _ \<leftarrow> guard (hr \<le> 24 \<and> mm \<le> 60);
        if hd v = CHR ''+'' then Some (int ((hr * 60 + mm) * 60), drop 5 v)
        else if hd v = CHR ''-'' then Some (- int ((hr * 60 + mm) * 60), drop 5 v)
        else None
      })"

text \<open>
  \<open>time.Parse("2006-01-02 15:04:05 -0700 WIB", value)\<close>, \<open>None\<close> for every error. \<open>WIB\<close> is
  no element of a layout, so it is text the value must end with.
\<close>

definition time_Parse :: "string \<Rightarrow> Time option" where
  "time_Parse value = do {
     (year, v) \<leftarrow> stdLongYear value;
     v \<leftarrow> skip v ''-'';
     (month, v) \<leftarrow> getnum v True;
     _ \<leftarrow> guard (1 \<le> month \<and> month \<le> 12);
     v \<leftarrow> skip v ''-'';
     (day, v) \<leftarrow> getnum v True;
     v \<leftarrow> skip v '' '';
     (hour, v) \<leftarrow> getnum v False;
     _ \<leftarrow> guard (hour < 24);
     v \<leftarrow> skip v '':'';
     (minute, v) \<leftarrow> getnum v True;
     _ \<leftarrow> guard (minute < 60);
     v \<leftarrow> skip v '':'';
     (sec, v) \<leftarrow> getnum v True;
     _ \<leftarrow> guard (sec < 60);
     (nsec, v) \<leftarrow> Some (fracSecond v);
     v \<leftarrow> skip v '' '';
     (zoneOffset, v) \<leftarrow> stdNumTZ v;
     v \<leftarrow> skip v '' WIB'';
     _ \<leftarrow> guard (v = []);
     _ \<leftarrow> guard (1 \<le> day \<and> day \<le> daysIn month year);
     Some (Date year month day hour minute sec nsec - zoneOffset * 1000000000)
   }"

section \<open>Lines of a \<open>bufio.Scanner\<close>\<close>

text \<open>
  \<open>bufio.NewScanner\<close> with its default split function \<open>ScanLines\<close> and its default
  buffer: the text is cut at line feeds, a last line that is empty is not a line, one
  carriage return is taken off the end of each line, and the scanner stops, as at the end
  of the text, before the first line of \<open>MaxScanTokenSize\<close> bytes or more.
\<close>

definition MaxScanTokenSize :: int where
  "MaxScanTokenSize = 65536"

definition dropCR :: "string \<Rightarrow> string" where
  "dropCR data = (if data \<noteq> [] \<and> last data = CHR 0x0D then butlast data else data)"

definition ScanLines :: "string \<Rightarrow> string list" where
  "ScanLines text =
     (let segs = Split text LF;
          raw = (if last segs = [] then butlast segs else segs)
      in map dropCR (takeWhile (\<lambda>l. int (length l) < MaxScanTokenSize) raw))"

section \<open>The client\<close>

text \<open>
  Modelled from the spec: \<open>config.Proxy\<close> is declared in package \<open>config\<close>; its fields are
  the ones the client reads. The field \<open>Address\<close> of the proxy is \<open>ProxyAddress\<close>
  here, the name \<open>Address\<close> being the field of \<open>Item\<close>.
\<close>

record Proxy =
  ProxyAddress :: string
  AuthConnector :: string
  UserName :: string
  TSHPath :: string

text \<open>
  A process started by \<open>exec.Command(name, arg...).Run()\<close> is a step of the machine the
  client runs on: from the state \<open>'w\<close> of that machine it gives what the process wrote
  to its standard output and standard error, the error of \<open>Run\<close> (a start that failed or
  an exit status that is not zero), and the next state. The client's own state is that
  of the machine and the list of the commands it has started.
\<close>

record procOutcome =
  pStdout :: string
  pStderr :: string
  pError :: "error option"

record 'w sys =
  machine :: 'w
  started :: "(string \<times> string list) list"

text \<open>
  What the client is given from outside: the processes of the machine, and \<open>url.Parse\<close>
  followed by the field \<open>Host\<close> for addresses with no control character.
\<close>

record 'w env =
  processes :: "string \<Rightarrow> string list \<Rightarrow> 'w \<Rightarrow> procOutcome \<times> 'w"
  urlHost :: "string \<Rightarrow> error + string"

definition exec_Run :: "'w env \<Rightarrow> string \<Rightarrow> string list \<Rightarrow> 'w sys \<Rightarrow> procOutcome \<times> 'w sys" where
  "exec_Run e name arg s =
     (case processes e name arg (machine s) of
        (r, w) \<Rightarrow> (r, \<lparr>machine = w, started = started s @ [(name, arg)]\<rparr>))"

text \<open>
  \<open>cmdResult\<close> holds two pointers to buffers; \<open>String\<close> of a nil buffer is the text
  \<open><nil>\<close>.
\<close>

record cmdResult =
  stdOut :: "string option"
  stdErr :: "string option"

definition Buffer_String :: "string option \<Rightarrow> string" where
  "Buffer_String b = (case b of None \<Rightarrow> ''<nil>'' | Some s \<Rightarrow> s)"

record 'w TSH =
  proxy :: Proxy
  userLogin :: string
  dstHost :: string
  cmdExec :: "string \<Rightarrow> string list \<Rightarrow> 'w sys \<Rightarrow> (cmdResult \<times> error option) \<times> 'w sys"
  minVersion :: Version

text \<open>\<open>Command(name, arg...).Run()\<close>, the executor over a real process.\<close>

definition Command :: "'w env \<Rightarrow> string \<Rightarrow> string list \<Rightarrow> 'w sys \<Rightarrow> (cmdResult \<times> error option) \<times> 'w sys" where
  "Command e name arg s =
     (case exec_Run e name arg s of
        (r, s') \<Rightarrow> ((\<lparr>stdOut = Some (pStdout r), stdErr = Some (pStderr r)\<rparr>, pError r), s'))"

definition NewTSH :: "'w env \<Rightarrow> Proxy \<Rightarrow> 'w TSH" where
  "NewTSH e p =
     \<lparr>proxy = p, userLogin = [], dstHost = [], cmdExec = Command e,
      minVersion = \<lparr>Major = 2, Minor = 6, Patch = 1\<rparr>\<rparr>"

definition tshBinary :: "'w TSH \<Rightarrow> string" where
  "tshBinary t = (if TSHPath (proxy t) \<noteq> [] then TSHPath (proxy t) else ''tsh'')"

text \<open>
  \<open>url.Parse\<close> cuts the address at the first \<open>#\<close> and refuses what is before it when it
  holds an ASCII control character; the rest of the parsing is \<open>urlHost\<close>.
\<close>

definition isCTL :: "char \<Rightarrow> bool" where
  "isCTL c = ((of_char c :: nat) < 32 \<or> (of_char c :: nat) = 127)"

definition url_Parse_Host :: "'w env \<Rightarrow> string \<Rightarrow> error + string" where
  "url_Parse_Host e rawURL =
     (if list_ex isCTL (takeWhile (\<lambda>c. c \<noteq> CHR ''#'') rawURL)
      then Inl (UrlError ''net/url: invalid control character in URL'')
      else urlHost e rawURL)"

definition cleanAddress :: "'w env \<Rightarrow> 'w TSH \<Rightarrow> error + string" where
  "cleanAddress e t = url_Parse_Host e (ProxyAddress (proxy t))"

definition getProxyFlags :: "'w env \<Rightarrow> 'w TSH \<Rightarrow> error + string list" where
  "getProxyFlags e t =
     (case cleanAddress e t of
        Inl err \<Rightarrow> Inl err
      | Inr proxyAddress \<Rightarrow> Inr [''--proxy='' @ proxyAddress])"

definition authFlags :: "'w TSH \<Rightarrow> string list" where
  "authFlags t =
     (if AuthConnector (proxy t) \<noteq> [] then [''--auth='' @ AuthConnector (proxy t)]
      else [''--user='' @ UserName (proxy t)])"

subsection \<open>The login test\<close>

record Profile =
  URL :: string
  ValidUntil :: Time

datatype panic = NilPointerDereference

text \<open>
  \<open>profileMap[currentProfile.URL] = currentProfile\<close> behind its test, as it stands
  before a new profile is begun and after the loop. The map holds pointers, but a profile
  is not written to after it has been stored (the next statement replaces
  \<open>currentProfile\<close>, or the loop is over), so the map of values is the same.
\<close>

definition commitProfile :: "Profile option \<Rightarrow> (string \<rightharpoonup> Profile) \<Rightarrow> (string \<rightharpoonup> Profile)" where
  "commitProfile currentProfile profileMap =
     (case currentProfile of
        None \<Rightarrow> profileMap
      | Some p \<Rightarrow> if URL p \<noteq> [] then profileMap(URL p \<mapsto> p) else profileMap)"

text \<open>
  The loop of \<open>isLogin\<close> over the lines of the scanner. \<open>currentProfile\<close> is a pointer,
  nil at the start; the assignment to \<open>currentProfile.ValidUntil\<close> has no test before it
  and panics on the nil pointer. A time stamp that does not parse gives the zero time, the
  error of \<open>time.Parse\<close> being dropped.
\<close>

fun scanProfiles ::
  "string list \<Rightarrow> Profile option \<Rightarrow> (string \<rightharpoonup> Profile) \<Rightarrow>
     panic + (Profile option \<times> (string \<rightharpoonup> Profile))" where
  "scanProfiles [] currentProfile profileMap = Inr (currentProfile, profileMap)"
| "scanProfiles (line # rest) currentProfile profileMap =
     (if Contains line ''Profile URL:''
      then scanProfiles rest
             (Some \<lparr>URL = TrimSpace (Replace_del (Replace_del line ''>'') ''Profile URL:''),
                    ValidUntil = 0\<rparr>)
             (commitProfile currentProfile profileMap)
      else if Contains line ''Valid until:''
      then (let timeString =
                  TrimSpace (hd (Split (TrimPrefix (TrimSpace line) ''Valid until:'') CHR ''[''));
                validUntil = (case time_Parse timeString of None \<Rightarrow> 0 | Some t \<Rightarrow> t)
            in case currentProfile of
                 None \<Rightarrow> Inl NilPointerDereference
               | Some p \<Rightarrow> scanProfiles rest (Some (p\<lparr>ValidUntil := validUntil\<rparr>)) profileMap)
      else scanProfiles rest currentProfile profileMap)"

text \<open>The scan of a whole status text with the store after the loop: the map of profiles.\<close>

definition parseProfiles :: "string \<Rightarrow> panic + (string \<rightharpoonup> Profile)" where
  "parseProfiles text =
     (case scanProfiles (ScanLines text) None Map.empty of
        Inl p \<Rightarrow> Inl p
      | Inr (currentProfile, profileMap) \<Rightarrow> Inr (commitProfile currentProfile profileMap))"

definition isLogin :: "'w TSH \<Rightarrow> Time \<Rightarrow> 'w sys \<Rightarrow> (panic + bool) \<times> 'w sys" where
  "isLogin t now s =
     (case cmdExec t (tshBinary t) [''status''] s of
        ((res, err), s') \<Rightarrow>
          if err \<noteq> None then (Inr False, s')
          else if Buffer_String (stdErr res) \<noteq> [] then (Inr False, s')
          else (case parseProfiles (Buffer_String (stdOut res)) of
                  Inl p \<Rightarrow> (Inl p, s')
                | Inr profileMap \<Rightarrow>
                    (case profileMap (ProxyAddress (proxy t)) of
                       None \<Rightarrow> (Inr False, s')
                     | Some target \<Rightarrow> (Inr (now < ValidUntil target), s'))))"

subsection \<open>The operations\<close>

text \<open>
  \<open>Login\<close> gives the error of the login command, or nil; its panic is that of \<open>isLogin\<close>.
\<close>

definition Login :: "'w env \<Rightarrow> 'w TSH \<Rightarrow> Time \<Rightarrow> 'w sys \<Rightarrow> (panic + error option) \<times> 'w sys" where
  "Login e t now s =
     (case isLogin t now s of
        (Inl p, s') \<Rightarrow> (Inl p, s')
      | (Inr True, s') \<Rightarrow> (Inr None, s')
      | (Inr False, s') \<Rightarrow>
          (case getProxyFlags e t of
             Inl err \<Rightarrow> (Inr (Some err), s')
           | Inr args \<Rightarrow>
               (case exec_Run e (tshBinary t) (''login'' # args @ authFlags t) s' of
                  (r, s'') \<Rightarrow> (Inr (pError r), s''))))"

definition ListNodes :: "'w env \<Rightarrow> 'w TSH \<Rightarrow> Time \<Rightarrow> 'w sys \<Rightarrow> (panic + Node \<times> error option) \<times> 'w sys" where
  "ListNodes e t now s =
     (case Login e t now s of
        (Inl p, s') \<Rightarrow> (Inl p, s')
      | (Inr (Some err), s') \<Rightarrow> (Inr (emptyNode, Some err), s')
      | (Inr None, s') \<Rightarrow>
          (case getProxyFlags e t of
             Inl err \<Rightarrow> (Inr (emptyNode, Some err), s')
           | Inr args \<Rightarrow>
               (case exec_Run e (tshBinary t) (''ls'' # args) s' of
                  (r, s'') \<Rightarrow>
                    (case pError r of
                       Some err \<Rightarrow> (Inr (emptyNode, Some err), s'')
                     | None \<Rightarrow>
                         if pStderr r \<noteq> [] then (Inr (emptyNode, Some (errors_New (pStderr r))), s'')
                         else (Inr (parseNodesFromString (pStdout r), None), s'')))))"

text \<open>The method \<open>Version\<close> of the client.\<close>

definition TSH_Version :: "'w env \<Rightarrow> 'w TSH \<Rightarrow> 'w sys \<Rightarrow> (error + Version) \<times> 'w sys" where
  "TSH_Version e t s =
     (case exec_Run e (tshBinary t) [''version''] s of
        (r, s') \<Rightarrow>
          (case pError r of
             Some err \<Rightarrow> (Inl err, s')
           | None \<Rightarrow>
               if pStderr r \<noteq> [] then (Inl (errors_New (pStderr r)), s')
               else if pStdout r = [] then (Inl StdOutEmpty, s')
               else (NewVersion (pStdout r), s')))"

definition Status :: "'w env \<Rightarrow> 'w TSH \<Rightarrow> 'w sys \<Rightarrow> (error + ProxyStatus) \<times> 'w sys" where
  "Status e t s =
     (case TSH_Version e t s of
        (Inl err, s') \<Rightarrow> (Inl err, s')
      | (Inr cv, s') \<Rightarrow>
          if \<not> IsSupported (minVersion t) cv then (Inl ErrUnsupportedVersion, s')
          else (case getProxyFlags e t of
                  Inl err \<Rightarrow> (Inl err, s')
                | Inr proxyFlags \<Rightarrow>
                    (case exec_Run e (tshBinary t) (''status'' # proxyFlags) s' of
                       (r, s'') \<Rightarrow>
                         (case pError r of
                            Some err \<Rightarrow> (Inl err, s'')
                          | None \<Rightarrow>
                              if pStderr r \<noteq> [] then (Inl (errors_New (pStderr r)), s'')
                              else if pStdout r = [] then (Inl StdOutEmpty, s'')
                              else (Inr (parseStringToStatus (pStdout r)), s'')))))"

subsection \<open>Scripted executors and machines\<close>

text \<open>
  An executor that starts nothing and hands back a scripted result, as a test double for
  \<open>cmdExec\<close> does; a client over it; and a machine whose processes are looked up by
  their arguments in a table, with one host for every address that \<open>url.Parse\<close> takes.
\<close>

definition scriptedExec ::
  "cmdResult \<Rightarrow> error option \<Rightarrow> string \<Rightarrow> string list \<Rightarrow> 'w sys \<Rightarrow> (cmdResult \<times> error option) \<times> 'w sys" where
  "scriptedExec res err name arg s = ((res, err), s)"

definition scriptedTSH :: "string \<Rightarrow> string \<Rightarrow> unit TSH" where
  "scriptedTSH address statusText =
     \<lparr>proxy = \<lparr>ProxyAddress = address, AuthConnector = [], UserName = ''bob'', TSHPath = []\<rparr>,
      userLogin = [], dstHost = [],
      cmdExec = scriptedExec \<lparr>stdOut = Some statusText, stdErr = Some []\<rparr> None,
      minVersion = \<lparr>Major = 2, Minor = 6, Patch = 1\<rparr>\<rparr>"

definition scriptOf :: "(string list \<times> procOutcome) list \<Rightarrow> string list \<Rightarrow> procOutcome" where
  "scriptOf table arg =
     (case map_of table arg of
        Some r \<Rightarrow> r
      | None \<Rightarrow> \<lparr>pStdout = [], pStderr = [], pError = Some (RunError ''exit status 1'')\<rparr>)"

definition wrote :: "string \<Rightarrow> procOutcome" where
  "wrote text = \<lparr>pStdout = text, pStderr = [], pError = None\<rparr>"

definition scriptedEnv :: "(string list \<times> procOutcome) list \<Rightarrow> string \<Rightarrow> unit env" where
  "scriptedEnv table host =
     \<lparr>processes = (\<lambda>name arg w. (scriptOf table arg, w)), urlHost = (\<lambda>rawURL. Inr host)\<rparr>"

definition exampleProxy :: "string \<Rightarrow> Proxy" where
  "exampleProxy address =
     \<lparr>ProxyAddress = address, AuthConnector = [], UserName = ''bob'', TSHPath = []\<rparr>"

definition start :: "unit sys" where
  "start = \<lparr>machine = (), started = []\<rparr>"

definition exampleStatus :: string where
  "exampleStatus =
     ''Profile URL: https://proxy.example.com'' @ [LF] @
     ''Valid until: 2099-01-01 00:00:00 +0000 WIB''"

definition tabAddress :: string where
  "tabAddress = ''https://proxy.example.com/a'' @ [CHR 0x09] @ ''b''"

definition tabStatus :: string where
  "tabStatus =
     ''Profile URL: '' @ tabAddress @ [LF] @ ''Valid until: 2099-01-01 00:00:00 +0000 WIB''"

definition versionEnv :: "string \<Rightarrow> unit env" where
  "versionEnv banner = scriptedEnv [([''version''], wrote banner)] ''proxy.example.com''"

definition listingEnv :: "string \<Rightarrow> string \<Rightarrow> unit env" where
  "listingEnv statusText listing =
     scriptedEnv
       [([''status''], wrote statusText),
        ([''ls'', ''--proxy=proxy.example.com''], wrote listing)]
       ''proxy.example.com''"

definition exampleListing :: string where
  "exampleListing =
     ''Node Name Address'' @ [LF] @ ''--------- -------'' @ [LF] @ ''host1     10.0.0.1''"

section \<open>Facts about \<open>Split\<close>\<close>

lemma Split_Nil: "Split [] sep = [[]]"
  by (simp add: Split.simps)

lemma Split_Cons:
  "Split (c # cs) sep =
     (if c = sep then [] # Split cs sep
      else (c # hd (Split cs sep)) # tl (Split cs sep))"
proof (cases "c = sep")
  case True
  then show ?thesis by (subst Split.simps) simp
next
  case False
  show ?thesis
  proof (cases "dropWhile (\<lambda>c. c \<noteq> sep) cs")
    case Nil
    have "Split cs sep = [cs]" by (subst Split.simps) (simp only: Nil list.case)
    moreover have "Split (c # cs) sep = [c # cs]"
      using False by (subst Split.simps) (simp add: Nil)
    ultimately show ?thesis using False by simp
  next
    case (Cons x rest)
    have "Split cs sep = takeWhile (\<lambda>c. c \<noteq> sep) cs # Split rest sep"
      by (subst Split.simps) (simp only: Cons list.case)
    moreover have "Split (c # cs) sep = (c # takeWhile (\<lambda>c. c \<noteq> sep) cs) # Split rest sep"
      using False by (subst Split.simps) (simp add: Cons)
    ultimately show ?thesis using False by simp
  qed
qed

lemma Split_neq_Nil: "Split s sep \<noteq> []"
  by (subst Split.simps) (simp split: list.splits)

lemma Split_no_sep: "sep \<notin> set s \<Longrightarrow> Split s sep = [s]"
  by (induction s) (auto simp: Split_Nil Split_Cons)

lemma Split_append_sep: "Split (a @ sep # b) sep = Split a sep @ Split b sep"
  by (induction a) (auto simp: Split_Nil Split_Cons Split_neq_Nil)

lemma Split_first: "sep \<notin> set a \<Longrightarrow> Split (a @ sep # b) sep = a # Split b sep"
  by (simp add: Split_append_sep Split_no_sep)


section \<open>The directory parser against its description\<close>

lemma scanTokens_filter: "scanTokens ts n node = scanTokens (filter (\<lambda>t. t \<noteq> []) ts) n node"
  by (induction ts arbitrary: n node) auto

lemma scanTokens_full: "scanTokens ts (Suc (Suc 0)) node = node"
  by (induction ts) auto

lemma scanTokens_spec:
  "scanTokens ts 0 emptyItem =
     (case filter (\<lambda>t. t \<noteq> []) ts of
        [] \<Rightarrow> emptyItem
      | [h] \<Rightarrow> \<lparr>Hostname = h, Address = []\<rparr>
      | h # a # _ \<Rightarrow> \<lparr>Hostname = h, Address = a\<rparr>)"
proof -
  have "scanTokens fs 0 emptyItem =
     (case fs of [] \<Rightarrow> emptyItem | [h] \<Rightarrow> \<lparr>Hostname = h, Address = []\<rparr>
      | h # a # _ \<Rightarrow> \<lparr>Hostname = h, Address = a\<rparr>)"
    if "[] \<notin> set fs" for fs
    using that by (auto simp: emptyItem_def scanTokens_full split: list.splits)
  from this [of "filter (\<lambda>t. t \<noteq> []) ts"] show ?thesis
    by (subst scanTokens_filter) simp
qed

lemma lineEntries_code:
  "(let node = scanTokens (Split l CHR '' '') 0 emptyItem
    in if node \<noteq> emptyItem then [node] else []) =
   (case filter (\<lambda>t. t \<noteq> []) (Split l CHR '' '') of
      [] \<Rightarrow> []
    | [h] \<Rightarrow> [\<lparr>Hostname = h, Address = []\<rparr>]
    | h # a # _ \<Rightarrow> [\<lparr>Hostname = h, Address = a\<rparr>])"
proof (cases "filter (\<lambda>t. t \<noteq> []) (Split l CHR '' '')")
  case Nil
  then show ?thesis by (simp only: scanTokens_spec Let_def) simp
next
  case (Cons h t)
  then have "h \<in> set (filter (\<lambda>t. t \<noteq> []) (Split l CHR '' ''))" by simp
  then have "h \<noteq> []" by simp
  then show ?thesis
    by (simp only: scanTokens_spec Let_def Cons) (simp add: emptyItem_def split: list.splits)
qed

lemma nodeLoop_acc: "nodeLoop ls acc = acc @ nodeLoop ls []"
proof (induction ls arbitrary: acc)
  case Nil
  then show ?case by simp
next
  case (Cons l ls)
  have a: "nodeLoop ls (acc @ [n]) = acc @ [n] @ nodeLoop ls []" for n
    using Cons.IH [of "acc @ [n]"] by simp
  have b: "nodeLoop ls [n] = [n] @ nodeLoop ls []" for n
    using Cons.IH [of "[n]"] by simp
  show ?case
    using Cons.IH [of acc] by (simp add: Let_def a b)
qed

lemma nodeLoop_step:
  "nodeLoop (l # ls) [] =
     (if HasPrefix l ''Node'' \<or> HasPrefix l ''---'' \<or> HasPrefix l '' '' then []
      else (let node = scanTokens (Split l CHR '' '') 0 emptyItem
            in if node \<noteq> emptyItem then [node] else [])) @ nodeLoop ls []"
  using nodeLoop_acc [of ls "[_]"] by (simp add: Let_def)

lemma nodeLoop_spec: "nodeLoop ls [] = concat (map spec_lineEntries ls)"
proof (induction ls)
  case Nil
  then show ?case by simp
next
  case (Cons l ls)
  show ?case
    by (simp only: nodeLoop_step lineEntries_code Cons.IH spec_lineEntries_def
        list.map concat.simps)
qed

lemma spec_lineEntries_hostname: "e \<in> set (spec_lineEntries l) \<Longrightarrow> Hostname e \<noteq> []"
proof -
  assume e: "e \<in> set (spec_lineEntries l)"
  let ?f = "filter (\<lambda>t. t \<noteq> []) (Split l CHR '' '')"
  have ne: "hd ?f \<noteq> []" if "?f \<noteq> []"
  proof -
    from that have "hd ?f \<in> set ?f" by (rule hd_in_set)
    then show ?thesis by simp
  qed
  show ?thesis
  proof (cases ?f)
    case Nil
    with e show ?thesis by (simp add: spec_lineEntries_def split: if_splits)
  next
    case (Cons h t)
    with ne have "h \<noteq> []" by simp
    with e Cons show ?thesis
      by (auto simp: spec_lineEntries_def split: if_splits list.splits)
  qed
qed

text \<open>
  C7, as amended. The entries of \<open>parseNodesFromString\<close> are, line by line and in order, the
  entries of \<open>spec_lineEntries\<close>: a line that begins with \<open>Node\<close>, with \<open>---\<close> or with a
  space character gives no entry; any other line is split at spaces, the empty pieces are
  dropped, the first piece left is the hostname, the second the address, and the pieces
  after them are ignored. The line \<open>host1   10.0.0.1\<close> gives the entry with hostname
  \<open>host1\<close> and address \<open>10.0.0.1\<close>.
\<close>

theorem parseNodes_lines:
  "Items (parseNodesFromString text) = concat (map spec_lineEntries (Split text LF)) \<and>
   Items (parseNodesFromString ''host1   10.0.0.1'') =
     [\<lparr>Hostname = ''host1'', Address = ''10.0.0.1''\<rparr>]"
proof
  show "Items (parseNodesFromString text) = concat (map spec_lineEntries (Split text LF))"
    by (simp add: parseNodesFromString_def nodeLoop_spec)
  show "Items (parseNodesFromString ''host1   10.0.0.1'') =
     [\<lparr>Hostname = ''host1'', Address = ''10.0.0.1''\<rparr>]"
    by code_simp
qed

theorem parseNodes_lines_witness:
  "Items (parseNodesFromString ''Node   Address'') =
     concat (map spec_lineEntries (Split ''Node   Address'' LF)) \<and>
   Items (parseNodesFromString ''Node   Address'') = [] \<and>
   Items (parseNodesFromString ''host1   10.0.0.1'') =
     [\<lparr>Hostname = ''host1'', Address = ''10.0.0.1''\<rparr>]"
proof -
  have "Items (parseNodesFromString ''Node   Address'') = []"
    by code_simp
  with parseNodes_lines [of "''Node   Address''"] show ?thesis
    by simp
qed

text \<open>
  C7, as stated, fails: a line that begins with white space other than a space character is
  not skipped. A line led by a tab gives an entry, the tab being part of the hostname.
\<close>

theorem parseNodes_tab_counterexample:
  "Items (parseNodesFromString (CHR 0x09 # ''host1   10.0.0.1'')) =
     [\<lparr>Hostname = CHR 0x09 # ''host1'', Address = ''10.0.0.1''\<rparr>]"
  by code_simp

text \<open>
  C8. Every entry of the directory of \<open>parseNodesFromString\<close> has a non-empty hostname or a
  non-empty address, so the all-empty entry is never appended; and the entries come in the
  order of the lines, nothing merged or dropped: the directory of a text followed by a line
  feed and a second text is the directory of the first followed by that of the second.
\<close>

theorem parseNodes_entries:
  "(\<forall>e \<in> set (Items (parseNodesFromString text)). Hostname e \<noteq> [] \<or> Address e \<noteq> []) \<and>
   emptyItem \<notin> set (Items (parseNodesFromString text)) \<and>
   Items (parseNodesFromString (a @ LF # b)) =
     Items (parseNodesFromString a) @ Items (parseNodesFromString b)"
proof (intro conjI)
  have host: "Hostname e \<noteq> []" if "e \<in> set (Items (parseNodesFromString text))" for e
    using that spec_lineEntries_hostname
    by (auto simp: parseNodesFromString_def nodeLoop_spec)
  then show "\<forall>e \<in> set (Items (parseNodesFromString text)). Hostname e \<noteq> [] \<or> Address e \<noteq> []"
    by blast
  show "emptyItem \<notin> set (Items (parseNodesFromString text))"
  proof
    assume "emptyItem \<in> set (Items (parseNodesFromString text))"
    then have "Hostname emptyItem \<noteq> []" by (rule host)
    then show False by (simp add: emptyItem_def)
  qed
  show "Items (parseNodesFromString (a @ LF # b)) =
     Items (parseNodesFromString a) @ Items (parseNodesFromString b)"
    by (simp add: parseNodesFromString_def nodeLoop_spec Split_append_sep)
qed

theorem parseNodes_entries_witness:
  "\<lparr>Hostname = ''h'', Address = ''1.2.3.4''\<rparr>
     \<in> set (Items (parseNodesFromString (''h 1.2.3.4'' @ LF # ''h 1.2.3.4''))) \<and>
   \<not> (Hostname \<lparr>Hostname = ''h'', Address = ''1.2.3.4''\<rparr> = [] \<and>
      Address \<lparr>Hostname = ''h'', Address = ''1.2.3.4''\<rparr> = []) \<and>
   emptyItem \<notin> set (Items (parseNodesFromString (''h 1.2.3.4'' @ LF # ''h 1.2.3.4''))) \<and>
   Items (parseNodesFromString (''h 1.2.3.4'' @ LF # ''h 1.2.3.4'')) =
     [\<lparr>Hostname = ''h'', Address = ''1.2.3.4''\<rparr>, \<lparr>Hostname = ''h'', Address = ''1.2.3.4''\<rparr>]"
proof -
  have one: "Items (parseNodesFromString ''h 1.2.3.4'') = [\<lparr>Hostname = ''h'', Address = ''1.2.3.4''\<rparr>]"
    by code_simp
  from parseNodes_entries [of "''h 1.2.3.4'' @ LF # ''h 1.2.3.4''" "''h 1.2.3.4''" "''h 1.2.3.4''"]
  show ?thesis
    by (simp add: one emptyItem_def)
qed

section \<open>Versions\<close>

lemma Atoi_digits: "Atoi s = Some n \<Longrightarrow> \<forall>ch \<in> set s. isDigit ch"
  by (auto simp: Atoi_def list_all_iff split: if_splits)

lemma Atoi_no_dot: "Atoi s = Some n \<Longrightarrow> CHR ''.'' \<notin> set s"
  using Atoi_digits [of s n] by (auto simp: isDigit_def)

lemma Atoi_no_space: "Atoi s = Some n \<Longrightarrow> CHR '' '' \<notin> set s"
  using Atoi_digits [of s n] by (auto simp: isDigit_def)

lemma Split_dots4:
  assumes "CHR ''.'' \<notin> set a" "CHR ''.'' \<notin> set b" "CHR ''.'' \<notin> set c" "CHR ''.'' \<notin> set d"
  shows "Split (a @ CHR ''.'' # b @ CHR ''.'' # c @ CHR ''.'' # d) CHR ''.'' = [a, b, c, d]"
  using assms by (simp add: Split_first Split_no_sep)

lemma NewVersion_four:
  assumes a: "Atoi a = Some x" and b: "Atoi b = Some y" and c: "Atoi c = Some z"
    and d: "Atoi d = Some w"
  shows "NewVersion (''Teleport v'' @ a @ ''.'' @ b @ ''.'' @ c @ ''.'' @ d @ '' '' @ rest) =
    Inr \<lparr>Major = x, Minor = y, Patch = z\<rparr>"
proof -
  let ?tok = "CHR ''v'' # a @ CHR ''.'' # b @ CHR ''.'' # c @ CHR ''.'' # d"
  note nd = Atoi_no_dot [OF a] Atoi_no_dot [OF b] Atoi_no_dot [OF c] Atoi_no_dot [OF d]
  note ns = Atoi_no_space [OF a] Atoi_no_space [OF b] Atoi_no_space [OF c] Atoi_no_space [OF d]
  have nosp: "CHR '' '' \<notin> set ?tok"
    using ns by simp
  have e: "''Teleport v'' @ a @ ''.'' @ b @ ''.'' @ c @ ''.'' @ d @ '' '' @ rest
        = ''Teleport'' @ CHR '' '' # (?tok @ CHR '' '' # rest)"
    by simp
  have t: "CHR '' '' \<notin> set ''Teleport''"
    by simp
  have s1: "Split (''Teleport'' @ CHR '' '' # (?tok @ CHR '' '' # rest)) CHR '' ''
      = ''Teleport'' # ?tok # Split rest CHR '' ''"
    by (simp only: Split_first [OF t] Split_first [OF nosp])
  have dots: "Split (a @ CHR ''.'' # b @ CHR ''.'' # c @ CHR ''.'' # d) CHR ''.'' = [a, b, c, d]"
    using nd by (rule Split_dots4)
  have shaped: "versionShaped ?tok"
    by (simp add: versionShaped_def dots HasPrefix_def)
  have notshaped: "\<not> versionShaped ''Teleport''"
    by (simp add: versionShaped_def HasPrefix_def)
  have f: "find versionShaped (''Teleport'' # ?tok # Split rest CHR '' '') = Some ?tok"
    using shaped notshaped by simp
  have "NewVersion (''Teleport'' @ CHR '' '' # (?tok @ CHR '' '' # rest)) =
    Inr \<lparr>Major = x, Minor = y, Patch = z\<rparr>"
    unfolding NewVersion_def s1 f by (simp add: dots a b c)
  then show ?thesis
    by (simp only: e)
qed

text \<open>
  C4. A banner whose version token has four numeric components gives the version of the
  first three; the fourth component and the text after the token play no part. The banner
  \<open>Teleport v2.4.5.1 git:v2.4.5-19-g4901c48-dirty\<close> gives version 2.4.5.
\<close>

theorem NewVersion_three_components:
  "(Atoi a = Some x \<and> Atoi b = Some y \<and> Atoi c = Some z \<and> Atoi d = Some w \<longrightarrow>
      NewVersion (''Teleport v'' @ a @ ''.'' @ b @ ''.'' @ c @ ''.'' @ d @ '' '' @ rest) =
        Inr \<lparr>Major = x, Minor = y, Patch = z\<rparr>) \<and>
   NewVersion ''Teleport v2.4.5.1 git:v2.4.5-19-g4901c48-dirty'' =
     Inr \<lparr>Major = 2, Minor = 4, Patch = 5\<rparr>"
proof (intro conjI impI)
  assume "Atoi a = Some x \<and> Atoi b = Some y \<and> Atoi c = Some z \<and> Atoi d = Some w"
  then show "NewVersion (''Teleport v'' @ a @ ''.'' @ b @ ''.'' @ c @ ''.'' @ d @ '' '' @ rest) =
        Inr \<lparr>Major = x, Minor = y, Patch = z\<rparr>"
    using NewVersion_four [of a x b y c z d w rest] by blast
next
  show "NewVersion ''Teleport v2.4.5.1 git:v2.4.5-19-g4901c48-dirty'' =
     Inr \<lparr>Major = 2, Minor = 4, Patch = 5\<rparr>"
    by code_simp
qed

theorem NewVersion_three_components_witness:
  "Atoi ''10'' = Some 10 \<and> Atoi ''0'' = Some 0 \<and> Atoi ''12'' = Some 12 \<and> Atoi ''7'' = Some 7 \<and>
   NewVersion ''Teleport v10.0.12.7 go1.15'' = Inr \<lparr>Major = 10, Minor = 0, Patch = 12\<rparr>"
proof -
  have a: "Atoi ''10'' = Some 10" "Atoi ''0'' = Some 0" "Atoi ''12'' = Some 12" "Atoi ''7'' = Some 7"
    by code_simp+
  with NewVersion_three_components [of "''10''" 10 "''0''" 0 "''12''" 12 "''7''" 7 "''go1.15''"]
  show ?thesis by simp
qed

lemma IsSupported_lex:
  "IsSupported m c \<longleftrightarrow> (Major m, Minor m, Patch m) \<le> (Major c, Minor c, Patch c)"
  by (auto simp: IsSupported_def less_eq_prod_def)

text \<open>
  C6. \<open>m.IsSupported(c)\<close> holds exactly when the candidate \<open>c\<close> is at least the minimum \<open>m\<close>
  in the lexicographic order of (major, minor, patch), equal versions included: 2.6.0 is
  not supported by the minimum 2.6.1, while 2.6.1 and 3.0.0 are.
\<close>

theorem IsSupported_lexicographic:
  "(IsSupported m c \<longleftrightarrow> (Major m, Minor m, Patch m) \<le> (Major c, Minor c, Patch c)) \<and>
   \<not> IsSupported \<lparr>Major = 2, Minor = 6, Patch = 1\<rparr> \<lparr>Major = 2, Minor = 6, Patch = 0\<rparr> \<and>
   IsSupported \<lparr>Major = 2, Minor = 6, Patch = 1\<rparr> \<lparr>Major = 2, Minor = 6, Patch = 1\<rparr> \<and>
   IsSupported \<lparr>Major = 2, Minor = 6, Patch = 1\<rparr> \<lparr>Major = 3, Minor = 0, Patch = 0\<rparr>"
  by (simp add: IsSupported_lex)

theorem IsSupported_lexicographic_witness:
  "IsSupported \<lparr>Major = 2, Minor = 6, Patch = 1\<rparr> \<lparr>Major = 2, Minor = 10, Patch = 0\<rparr> \<and>
   ((2::nat), (6::nat), (1::nat)) \<le> (2, 10, 0)"
  using IsSupported_lexicographic
    [of "\<lparr>Major = 2, Minor = 6, Patch = 1\<rparr>" "\<lparr>Major = 2, Minor = 10, Patch = 0\<rparr>"]
  by (simp add: IsSupported_def)

section \<open>The scan of the status text\<close>

lemma statusLoop_no_colon:
  "CHR '':'' \<notin> set line \<Longrightarrow> statusLoop (line # rest) res = statusLoop rest res"
  by (simp add: Split_no_sep)

lemma Split_kv:
  "CHR '':'' \<notin> set k \<Longrightarrow> CHR '':'' \<notin> set v \<Longrightarrow>
   Split (k @ CHR '':'' # v @ CHR '':'' # tl0) CHR '':'' = k # v # Split tl0 CHR '':''"
  by (simp add: Split_first)

lemma statusLoop_LoginAs:
  assumes "CHR '':'' \<notin> set k" "CHR '':'' \<notin> set v" "TrimSpace k = ''Logged in as''"
  shows "statusLoop ((k @ CHR '':'' # v @ CHR '':'' # tl0) # rest) res =
     statusLoop rest (res\<lparr>LoginAs := TrimSpace v\<rparr>)"
  using assms by (simp add: Split_kv Let_def)

lemma statusLoop_unknown:
  assumes "TrimSpace (hd (Split line CHR '':'')) \<notin> {''Logged in as'', ''Roles'', ''Logins''}"
  shows "statusLoop (line # rest) res = statusLoop rest res"
  using assms Split_neq_Nil [of line "CHR '':''"]
  by (cases "Split line CHR '':''") (auto simp: Let_def)


lemma statusLoop_Roles:
  assumes "CHR '':'' \<notin> set k" "CHR '':'' \<notin> set v" "TrimSpace k = ''Roles''"
  shows "statusLoop ((k @ CHR '':'' # v @ CHR '':'' # tl0) # rest) res =
     statusLoop rest (res\<lparr>Roles := trimSliceString (Split (TrimSpace v) CHR '','')\<rparr>)"
  using assms by (simp add: Split_kv Let_def)

lemma statusLoop_Logins:
  assumes "CHR '':'' \<notin> set k" "CHR '':'' \<notin> set v" "TrimSpace k = ''Logins''"
  shows "statusLoop ((k @ CHR '':'' # v @ CHR '':'' # tl0) # rest) res =
     statusLoop rest (res\<lparr>UserLogins := trimSliceString (Split (TrimSpace v) CHR '','')\<rparr>)"
  using assms by (simp add: Split_kv Let_def)

text \<open>
  C10. In the scan of \<open>parseStringToStatus\<close> a line is cut at every colon and the value is
  the piece between the first and the second colon: for the keys \<open>Logged in as\<close>,
  \<open>Roles\<close> and \<open>Logins\<close> what follows a second colon is dropped from the stored value;
  a line without a colon, and a line whose key is none of the three, leave the result as
  it was. The lines scanned are those of the text with every \<open>>\<close> taken out.
\<close>

theorem statusLoop_colons:
  "(CHR '':'' \<notin> set line \<longrightarrow> statusLoop (line # rest) res = statusLoop rest res) \<and>
   (TrimSpace (hd (Split line CHR '':'')) \<notin> {''Logged in as'', ''Roles'', ''Logins''} \<longrightarrow>
      statusLoop (line # rest) res = statusLoop rest res) \<and>
   (CHR '':'' \<notin> set k \<and> CHR '':'' \<notin> set v \<and> TrimSpace k = ''Logged in as'' \<longrightarrow>
      statusLoop ((k @ CHR '':'' # v @ CHR '':'' # tl0) # rest) res =
        statusLoop rest (res\<lparr>LoginAs := TrimSpace v\<rparr>)) \<and>
   (CHR '':'' \<notin> set k \<and> CHR '':'' \<notin> set v \<and> TrimSpace k = ''Roles'' \<longrightarrow>
      statusLoop ((k @ CHR '':'' # v @ CHR '':'' # tl0) # rest) res =
        statusLoop rest (res\<lparr>Roles := trimSliceString (Split (TrimSpace v) CHR '','')\<rparr>)) \<and>
   (CHR '':'' \<notin> set k \<and> CHR '':'' \<notin> set v \<and> TrimSpace k = ''Logins'' \<longrightarrow>
      statusLoop ((k @ CHR '':'' # v @ CHR '':'' # tl0) # rest) res =
        statusLoop rest (res\<lparr>UserLogins := trimSliceString (Split (TrimSpace v) CHR '','')\<rparr>)) \<and>
   parseStringToStatus str = statusLoop (Split (Replace_del str ''>'') LF) emptyStatus"
  using statusLoop_no_colon [of line rest res] statusLoop_unknown [of line rest res]
    statusLoop_LoginAs [of k v tl0 rest res] statusLoop_Roles [of k v tl0 rest res]
    statusLoop_Logins [of k v tl0 rest res] parseStringToStatus_def [of str]
  by blast

theorem statusLoop_colons_witness:
  "CHR '':'' \<notin> set ''tsh status'' \<and>
   statusLoop [''tsh status''] emptyStatus = emptyStatus \<and>
   TrimSpace (hd (Split ''  Kubernetes: disabled'' CHR '':'')) \<notin> {''Logged in as'', ''Roles'', ''Logins''} \<and>
   statusLoop [''  Kubernetes: disabled''] emptyStatus = emptyStatus \<and>
   CHR '':'' \<notin> set ''  Logged in as'' \<and> CHR '':'' \<notin> set '' bob@corp'' \<and>
   TrimSpace ''  Logged in as'' = ''Logged in as'' \<and>
   statusLoop [''  Logged in as: bob@corp:ldap''] emptyStatus =
     emptyStatus\<lparr>LoginAs := ''bob@corp''\<rparr> \<and>
   TrimSpace ''  Roles'' = ''Roles'' \<and>
   statusLoop [''  Roles: admin, team:dev''] emptyStatus =
     emptyStatus\<lparr>Roles := [''admin'', ''team'']\<rparr> \<and>
   TrimSpace ''  Logins'' = ''Logins'' \<and>
   statusLoop [''  Logins: root, db:ro''] emptyStatus =
     emptyStatus\<lparr>UserLogins := [''root'', ''db'']\<rparr> \<and>
   parseStringToStatus (''> Profile URL: https://proxy.example.com:3080'' @ [LF] @
       ''  Logged in as: bob@corp:ldap'') =
     emptyStatus\<lparr>LoginAs := ''bob@corp''\<rparr>"
proof -
  have p: "parseStringToStatus (''> Profile URL: https://proxy.example.com:3080'' @ [LF] @
       ''  Logged in as: bob@corp:ldap'') = emptyStatus\<lparr>LoginAs := ''bob@corp''\<rparr>"
    by code_simp
  have k: "TrimSpace (hd (Split ''  Kubernetes: disabled'' CHR '':'')) = ''Kubernetes''"
    "TrimSpace ''  Logged in as'' = ''Logged in as''"
    "TrimSpace ''  Roles'' = ''Roles''" "TrimSpace ''  Logins'' = ''Logins''"
    by code_simp+
  have v: "TrimSpace '' bob@corp'' = ''bob@corp''"
    "trimSliceString (Split (TrimSpace '' admin, team'') CHR '','') = [''admin'', ''team'']"
    "trimSliceString (Split (TrimSpace '' root, db'') CHR '','') = [''root'', ''db'']"
    by code_simp+
  from statusLoop_colons [of "''tsh status''" "[]" emptyStatus "''  Logged in as''" "'' bob@corp''" "''ldap''" "[]"]
    statusLoop_colons [of "''  Kubernetes: disabled''" "[]" emptyStatus "''  Roles''" "'' admin, team''" "''dev''" "[]"]
    statusLoop_colons [of "''tsh status''" "[]" emptyStatus "''  Logins''" "'' root, db''" "''ro''" "[]"]
    p
  show ?thesis
    by (simp add: k v)
qed

section \<open>The login test\<close>

lemma scanProfiles_nil_until:
  "\<not> Contains line ''Profile URL:'' \<Longrightarrow> Contains line ''Valid until:'' \<Longrightarrow>
   scanProfiles (line # rest) None pm = Inl NilPointerDereference"
  by (simp add: Let_def)

text \<open>Once a profile is current the loop cannot panic.\<close>

lemma scanProfiles_current: "\<exists>r. scanProfiles ls (Some p) pm = Inr r"
  by (induction ls arbitrary: p pm) (auto simp: Let_def)

text \<open>With a profile current, a time stamp that does not parse gives the zero expiry and
  the loop goes on.\<close>

lemma scanProfiles_bad_timestamp:
  assumes "\<not> Contains line ''Profile URL:''" and "Contains line ''Valid until:''"
    and "time_Parse (TrimSpace (hd (Split (TrimPrefix (TrimSpace line) ''Valid until:'') CHR ''[''))) = None"
  shows "scanProfiles (line # rest) (Some p) pm = scanProfiles rest (Some (p\<lparr>ValidUntil := 0\<rparr>)) pm"
  using assms by (simp add: Let_def)

lemma parseProfiles_two_lines:
  assumes "ScanLines text = [l1, l2]"
    and "Contains l1 ''Profile URL:''"
    and "TrimSpace (Replace_del (Replace_del l1 ''>'') ''Profile URL:'') = url" and "url \<noteq> []"
    and "\<not> Contains l2 ''Profile URL:''" and "Contains l2 ''Valid until:''"
    and "time_Parse (TrimSpace (hd (Split (TrimPrefix (TrimSpace l2) ''Valid until:'') CHR ''[''))) = Some tm"
  shows "parseProfiles text = Inr [url \<mapsto> \<lparr>URL = url, ValidUntil = tm\<rparr>]"
  using assms by (simp add: parseProfiles_def commitProfile_def Let_def)

lemma example_until:
  "\<not> Contains ''Valid until: 2099-01-01 00:00:00 +0000 WIB'' ''Profile URL:''"
  "Contains ''Valid until: 2099-01-01 00:00:00 +0000 WIB'' ''Valid until:''"
  "time_Parse (TrimSpace (hd (Split (TrimPrefix (TrimSpace ''Valid until: 2099-01-01 00:00:00 +0000 WIB'')
      ''Valid until:'') CHR ''[''))) = Some (Date 2099 1 1 0 0 0 0)"
  by code_simp+

lemma example_profiles:
  "parseProfiles exampleStatus =
     Inr [''https://proxy.example.com'' \<mapsto>
            \<lparr>URL = ''https://proxy.example.com'', ValidUntil = Date 2099 1 1 0 0 0 0\<rparr>]"
proof (rule parseProfiles_two_lines [OF _ _ _ _ example_until])
  show "ScanLines exampleStatus =
     [''Profile URL: https://proxy.example.com'', ''Valid until: 2099-01-01 00:00:00 +0000 WIB'']"
    by code_simp
  show "Contains ''Profile URL: https://proxy.example.com'' ''Profile URL:''"
    by code_simp
  show "TrimSpace (Replace_del (Replace_del ''Profile URL: https://proxy.example.com'' ''>'') ''Profile URL:'')
     = ''https://proxy.example.com''"
    by code_simp
qed simp

lemma tab_profiles:
  "parseProfiles tabStatus =
     Inr [tabAddress \<mapsto> \<lparr>URL = tabAddress, ValidUntil = Date 2099 1 1 0 0 0 0\<rparr>]"
proof (rule parseProfiles_two_lines [OF _ _ _ _ example_until])
  show "ScanLines tabStatus =
     [''Profile URL: '' @ tabAddress, ''Valid until: 2099-01-01 00:00:00 +0000 WIB'']"
    by code_simp
  show "Contains (''Profile URL: '' @ tabAddress) ''Profile URL:''"
    by code_simp
  show "TrimSpace (Replace_del (Replace_del (''Profile URL: '' @ tabAddress) ''>'') ''Profile URL:'')
     = tabAddress"
    by code_simp
  show "tabAddress \<noteq> []"
    by (simp add: tabAddress_def)
qed

lemma times:
  "Date 2024 1 1 0 0 0 0 < Date 2099 1 1 0 0 0 0"
  "\<not> Date 2100 1 1 0 0 0 0 < Date 2099 1 1 0 0 0 0"
  "Date 2099 1 1 0 0 0 0 = 66206505600000000000"
  by code_simp+

text \<open>
  C1, as amended. The status text is the two lines
  \<open>Profile URL: https://proxy.example.com\<close> and
  \<open>Valid until: 2099-01-01 00:00:00 +0000 WIB\<close>. With the proxy address
  \<open>https://proxy.example.com\<close>, the URL of the profile itself, \<open>isLogin\<close> is true at every
  time before 2099-01-01 00:00:00 UTC and false from then on. With the proxy address
  \<open>https://proxy.example.com/webapi\<close> it is false at every time.
\<close>

theorem isLogin_example:
  "isLogin (scriptedTSH ''https://proxy.example.com'' exampleStatus) now s =
     (Inr (now < Date 2099 1 1 0 0 0 0), s) \<and>
   isLogin (scriptedTSH ''https://proxy.example.com/webapi'' exampleStatus) now s =
     (Inr False, s)"
  by (simp add: isLogin_def scriptedTSH_def scriptedExec_def Buffer_String_def example_profiles)

theorem isLogin_example_witness:
  "isLogin (scriptedTSH ''https://proxy.example.com'' exampleStatus) (Date 2024 1 1 0 0 0 0) start =
     (Inr True, start) \<and>
   isLogin (scriptedTSH ''https://proxy.example.com'' exampleStatus) (Date 2100 1 1 0 0 0 0) start =
     (Inr False, start) \<and>
   isLogin (scriptedTSH ''https://proxy.example.com/webapi'' exampleStatus) (Date 2024 1 1 0 0 0 0) start =
     (Inr False, start)"
  using isLogin_example [of "Date 2024 1 1 0 0 0 0" start]
    isLogin_example [of "Date 2100 1 1 0 0 0 0" start] times(1,2)
  by simp

text \<open>
  C1, as stated, fails: with the proxy address \<open>https://proxy.example.com/webapi\<close> the map
  of profiles has no entry under that key, and \<open>isLogin\<close> is false in 2024, before the
  expiry.
\<close>

theorem isLogin_webapi_counterexample:
  "isLogin (scriptedTSH ''https://proxy.example.com/webapi'' exampleStatus) (Date 2024 1 1 0 0 0 0) start =
     (Inr False, start) \<and>
   Date 2024 1 1 0 0 0 0 < Date 2099 1 1 0 0 0 0"
  using times(1)
  by (simp add: isLogin_def scriptedTSH_def scriptedExec_def Buffer_String_def example_profiles)

text \<open>
  C2 fails on the code. On a status text whose \<open>Valid until:\<close> line comes before any
  \<open>Profile URL:\<close> line, here one with a time stamp that does not parse, the scan does
  not run to completion: \<open>currentProfile\<close> is nil when its expiry is assigned, and the
  scan ends in the panic of a nil pointer.
\<close>

theorem parseProfiles_nil_dereference:
  "time_Parse ''soon'' = None \<and>
   parseProfiles (''Valid until: soon'' @ [LF] @ ''Profile URL: https://proxy.example.com'') =
     Inl NilPointerDereference"
proof
  show "time_Parse ''soon'' = None"
    by code_simp
  have l: "ScanLines (''Valid until: soon'' @ [LF] @ ''Profile URL: https://proxy.example.com'') =
    [''Valid until: soon'', ''Profile URL: https://proxy.example.com'']"
    by code_simp
  have c: "\<not> Contains ''Valid until: soon'' ''Profile URL:''"
    "Contains ''Valid until: soon'' ''Valid until:''"
    by code_simp+
  show "parseProfiles (''Valid until: soon'' @ [LF] @ ''Profile URL: https://proxy.example.com'') =
     Inl NilPointerDereference"
    by (simp only: parseProfiles_def l scanProfiles_nil_until [OF c] sum.case)
qed

text \<open>The decision of \<open>isLogin\<close> wherever the scan does not panic.\<close>

lemma isLogin_true_iff:
  "fst (isLogin t now s) = Inr True \<longleftrightarrow>
     (\<exists>res s' profileMap target.
        cmdExec t (tshBinary t) [''status''] s = ((res, None), s') \<and>
        Buffer_String (stdErr res) = [] \<and>
        parseProfiles (Buffer_String (stdOut res)) = Inr profileMap \<and>
        profileMap (ProxyAddress (proxy t)) = Some target \<and>
        now < ValidUntil target)"
  by (auto simp: isLogin_def split: prod.splits sum.splits option.splits if_splits)

lemma isLogin_false_cases:
  assumes "cmdExec t (tshBinary t) [''status''] s = ((res, err), s')"
  shows "err \<noteq> None \<Longrightarrow> isLogin t now s = (Inr False, s')"
    and "Buffer_String (stdErr res) \<noteq> [] \<Longrightarrow> isLogin t now s = (Inr False, s')"
    and "err = None \<Longrightarrow> Buffer_String (stdErr res) = [] \<Longrightarrow>
         parseProfiles (Buffer_String (stdOut res)) = Inr profileMap \<Longrightarrow>
         isLogin t now s =
           (Inr (case profileMap (ProxyAddress (proxy t)) of
                   None \<Rightarrow> False | Some target \<Rightarrow> now < ValidUntil target), s')"
  using assms by (auto simp: isLogin_def split: option.splits)

text \<open>
  C3 fails on the code. The executor ran without error, the error stream is empty and the
  status text, a lone \<open>Valid until:\<close> line, has no profile for the proxy address; the claim
  has \<open>isLogin\<close> return false there, and it does not return: it panics on the nil
  \<open>currentProfile\<close>.
\<close>

theorem isLogin_nil_dereference:
  "isLogin (scriptedTSH ''https://proxy.example.com'' ''Valid until: 2099-01-01 00:00:00 +0000 WIB'')
     (Date 2024 1 1 0 0 0 0) start = (Inl NilPointerDereference, start)"
proof -
  have "ScanLines ''Valid until: 2099-01-01 00:00:00 +0000 WIB'' =
    [''Valid until: 2099-01-01 00:00:00 +0000 WIB'']"
    by code_simp
  then have "parseProfiles ''Valid until: 2099-01-01 00:00:00 +0000 WIB'' = Inl NilPointerDereference"
    by (simp only: parseProfiles_def scanProfiles_nil_until [OF example_until(1,2)] sum.case)
  then show ?thesis
    by (simp add: isLogin_def scriptedTSH_def scriptedExec_def Buffer_String_def)
qed

section \<open>The operations of the client\<close>

lemma TSH_Version_started:
  "started (snd (TSH_Version e t s)) = started s @ [(tshBinary t, [''version''])]"
  by (auto simp: TSH_Version_def exec_Run_def split: prod.splits option.splits)

lemma Status_unsupported:
  assumes "TSH_Version e t s = (Inr cv, s')"
    and "(Major cv, Minor cv, Patch cv) < (Major (minVersion t), Minor (minVersion t), Patch (minVersion t))"
  shows "Status e t s = (Inl ErrUnsupportedVersion, s')"
proof -
  from assms(2) have "\<not> IsSupported (minVersion t) cv"
    unfolding IsSupported_lex not_le .
  with assms(1) show ?thesis
    by (simp add: Status_def)
qed

lemma Status_version_error:
  "TSH_Version e t s = (Inl err, s') \<Longrightarrow> Status e t s = (Inl err, s')"
  by (simp add: Status_def)

lemma ListNodes_login_error:
  "Login e t now s = (Inr (Some err), s') \<Longrightarrow> ListNodes e t now s = (Inr (emptyNode, Some err), s')"
  by (simp add: ListNodes_def)

lemma ListNodes_flags_error:
  "Login e t now s = (Inr None, s') \<Longrightarrow> getProxyFlags e t = Inl err \<Longrightarrow>
   ListNodes e t now s = (Inr (emptyNode, Some err), s')"
  by (simp add: ListNodes_def)

lemma ListNodes_listing:
  assumes "Login e t now s = (Inr None, s')" and "getProxyFlags e t = Inr args"
    and "exec_Run e (tshBinary t) (''ls'' # args) s' = (r, s'')"
  shows "ListNodes e t now s =
     (Inr (if pError r \<noteq> None then (emptyNode, pError r)
           else if pStderr r \<noteq> [] then (emptyNode, Some (errors_New (pStderr r)))
           else (parseNodesFromString (pStdout r), None)), s'')"
  using assms by (auto simp: ListNodes_def split: option.splits)

lemma getProxyFlags_Inr:
  "getProxyFlags e t = Inr args \<Longrightarrow> \<exists>host. cleanAddress e t = Inr host \<and> args = [''--proxy='' @ host]"
  by (auto simp: getProxyFlags_def split: sum.splits)

lemma exec_Run_started:
  "exec_Run e name arg s = (r, s') \<Longrightarrow> started s' = started s @ [(name, arg)]"
  by (auto simp: exec_Run_def split: prod.splits)


lemma isLogin_Command:
  assumes "processes e (tshBinary t) [''status''] (machine s) = (wrote text, w)"
    and "cmdExec t = Command e" and "parseProfiles text = Inr pm"
  shows "isLogin t now s =
    (Inr (case pm (ProxyAddress (proxy t)) of None \<Rightarrow> False | Some target \<Rightarrow> now < ValidUntil target),
     \<lparr>machine = w, started = started s @ [(tshBinary t, [''status''])]\<rparr>)"
  using assms
  by (simp add: isLogin_def Command_def exec_Run_def wrote_def Buffer_String_def split: option.splits)

text \<open>
  C5. \<open>Status\<close> first runs the version command. When the version found is below the
  minimum of the client, in the order of (major, minor, patch), it returns
  \<open>ErrUnsupportedVersion\<close>; when the version command fails or its banner does not parse,
  it returns that error. In both cases no status is returned and the only command started
  is the version command, the status command is not. The minimum of a client made by
  \<open>NewTSH\<close> is 2.6.1.
\<close>

theorem Status_minimum_version:
  "(TSH_Version e t s = (Inr cv, s') \<and>
    (Major cv, Minor cv, Patch cv) <
      (Major (minVersion t), Minor (minVersion t), Patch (minVersion t)) \<longrightarrow>
      Status e t s = (Inl ErrUnsupportedVersion, s') \<and>
      started s' = started s @ [(tshBinary t, [''version''])]) \<and>
   (TSH_Version e t s = (Inl err, s') \<longrightarrow>
      Status e t s = (Inl err, s') \<and>
      started s' = started s @ [(tshBinary t, [''version''])]) \<and>
   minVersion (NewTSH e p) = \<lparr>Major = 2, Minor = 6, Patch = 1\<rparr>"
proof (intro conjI impI)
  assume a: "TSH_Version e t s = (Inr cv, s') \<and>
    (Major cv, Minor cv, Patch cv) <
      (Major (minVersion t), Minor (minVersion t), Patch (minVersion t))"
  then show "Status e t s = (Inl ErrUnsupportedVersion, s')"
    using Status_unsupported [of e t s cv s'] by blast
  from a TSH_Version_started [of e t s]
  show "started s' = started s @ [(tshBinary t, [''version''])]"
    by simp
next
  assume a: "TSH_Version e t s = (Inl err, s')"
  then show "Status e t s = (Inl err, s')"
    by (rule Status_version_error)
  from a TSH_Version_started [of e t s]
  show "started s' = started s @ [(tshBinary t, [''version''])]"
    by simp
next
  show "minVersion (NewTSH e p) = \<lparr>Major = 2, Minor = 6, Patch = 1\<rparr>"
    by (simp add: NewTSH_def)
qed

theorem Status_minimum_version_witness:
  "TSH_Version (versionEnv ''Teleport v2.4.5.1 git:v2.4.5-19-g4901c48-dirty'')
     (NewTSH (versionEnv ''Teleport v2.4.5.1 git:v2.4.5-19-g4901c48-dirty'')
        (exampleProxy ''https://proxy.example.com'')) start =
     (Inr \<lparr>Major = 2, Minor = 4, Patch = 5\<rparr>,
      \<lparr>machine = (), started = [(''tsh'', [''version''])]\<rparr>) \<and>
   ((2::nat), (4::nat), (5::nat)) < (2, 6, 1) \<and>
   Status (versionEnv ''Teleport v2.4.5.1 git:v2.4.5-19-g4901c48-dirty'')
     (NewTSH (versionEnv ''Teleport v2.4.5.1 git:v2.4.5-19-g4901c48-dirty'')
        (exampleProxy ''https://proxy.example.com'')) start =
     (Inl ErrUnsupportedVersion, \<lparr>machine = (), started = [(''tsh'', [''version''])]\<rparr>) \<and>
   TSH_Version (versionEnv ''Teleport dev build'')
     (NewTSH (versionEnv ''Teleport dev build'') (exampleProxy ''https://proxy.example.com'')) start =
     (Inl ParseError, \<lparr>machine = (), started = [(''tsh'', [''version''])]\<rparr>) \<and>
   Status (versionEnv ''Teleport dev build'')
     (NewTSH (versionEnv ''Teleport dev build'') (exampleProxy ''https://proxy.example.com'')) start =
     (Inl ParseError, \<lparr>machine = (), started = [(''tsh'', [''version''])]\<rparr>)"
proof -
  let ?e1 = "versionEnv ''Teleport v2.4.5.1 git:v2.4.5-19-g4901c48-dirty''"
  let ?e2 = "versionEnv ''Teleport dev build''"
  let ?p = "exampleProxy ''https://proxy.example.com''"
  let ?s = "\<lparr>machine = (), started = [(''tsh'', [''version''])]\<rparr>"
  have v1: "TSH_Version ?e1 (NewTSH ?e1 ?p) start = (Inr \<lparr>Major = 2, Minor = 4, Patch = 5\<rparr>, ?s)"
    by code_simp
  have v2: "TSH_Version ?e2 (NewTSH ?e2 ?p) start = (Inl ParseError, ?s)"
    by code_simp
  have m: "minVersion (NewTSH ?e1 ?p) = \<lparr>Major = 2, Minor = 6, Patch = 1\<rparr>"
    by (simp add: NewTSH_def)
  from Status_minimum_version [of ?e1 "NewTSH ?e1 ?p" start "\<lparr>Major = 2, Minor = 4, Patch = 5\<rparr>" ?s ParseError]
    Status_minimum_version [of ?e2 "NewTSH ?e2 ?p" start "\<lparr>Major = 2, Minor = 4, Patch = 5\<rparr>" ?s ParseError]
  show ?thesis
    by (simp add: v1 v2 m)
qed

lemma tab_isLogin:
  "isLogin (NewTSH (listingEnv tabStatus exampleListing) (exampleProxy tabAddress))
     (Date 2024 1 1 0 0 0 0) start =
   (Inr True, \<lparr>machine = (), started = [(''tsh'', [''status''])]\<rparr>)"
proof -
  let ?e = "listingEnv tabStatus exampleListing"
  let ?t = "NewTSH ?e (exampleProxy tabAddress)"
  have b: "tshBinary ?t = ''tsh''" "ProxyAddress (proxy ?t) = tabAddress"
    by (simp_all add: tshBinary_def NewTSH_def exampleProxy_def)
  have "processes ?e (tshBinary ?t) [''status''] (machine start) = (wrote tabStatus, ())"
    by (simp add: listingEnv_def scriptedEnv_def scriptOf_def)
  from isLogin_Command [OF this _ tab_profiles, of "Date 2024 1 1 0 0 0 0"] times(1)
  show ?thesis
    by (simp add: b start_def) (simp add: NewTSH_def)
qed

lemma tab_Login:
  "Login (listingEnv tabStatus exampleListing)
     (NewTSH (listingEnv tabStatus exampleListing) (exampleProxy tabAddress))
     (Date 2024 1 1 0 0 0 0) start =
   (Inr None, \<lparr>machine = (), started = [(''tsh'', [''status''])]\<rparr>)"
  using tab_isLogin by (simp add: Login_def)

lemma tab_cleanAddress:
  "cleanAddress (listingEnv tabStatus exampleListing)
     (NewTSH (listingEnv tabStatus exampleListing) (exampleProxy tabAddress)) =
   Inl (UrlError ''net/url: invalid control character in URL'')"
  by code_simp

text \<open>
  C9, as stated, fails: after a login test that succeeds, \<open>ListNodes\<close> builds the proxy
  flags before it lists, and an address that \<open>url.Parse\<close> refuses (here one with a tab in
  its path, under which a valid profile exists) makes it return that error with an empty
  directory. The listing operation is not invoked: the only command started is the status
  command of the login test.
\<close>

theorem ListNodes_address_counterexample:
  "ListNodes (listingEnv tabStatus exampleListing)
     (NewTSH (listingEnv tabStatus exampleListing) (exampleProxy tabAddress))
     (Date 2024 1 1 0 0 0 0) start =
   (Inr (emptyNode, Some (UrlError ''net/url: invalid control character in URL'')),
    \<lparr>machine = (), started = [(''tsh'', [''status''])]\<rparr>)"
  using tab_Login by (simp add: ListNodes_def getProxyFlags_def tab_cleanAddress)

text \<open>
  C9, as amended. \<open>ListNodes\<close> first calls \<open>Login\<close> and returns its error with an empty
  directory. After a login without error it builds the proxy flag from the address; when
  the address does not parse it returns that error with an empty directory and starts no
  command. Otherwise it starts the listing command with the flag \<open>--proxy=host\<close>, returns
  the error of the run, or the text of a non-empty error stream as an error, each with an
  empty directory, and in every other case the directory \<open>parseNodesFromString\<close> reads
  from the standard output, without error; an empty output gives the empty directory.
\<close>

theorem ListNodes_flow:
  "(Login e t now s = (Inr (Some err), s') \<longrightarrow>
      ListNodes e t now s = (Inr (emptyNode, Some err), s')) \<and>
   (Login e t now s = (Inr None, s') \<and> cleanAddress e t = Inl err \<longrightarrow>
      ListNodes e t now s = (Inr (emptyNode, Some err), s')) \<and>
   (Login e t now s = (Inr None, s') \<and> cleanAddress e t = Inr host \<and>
    exec_Run e (tshBinary t) [''ls'', ''--proxy='' @ host] s' = (r, s'') \<longrightarrow>
      ListNodes e t now s =
        (Inr (if pError r \<noteq> None then (emptyNode, pError r)
              else if pStderr r \<noteq> [] then (emptyNode, Some (errors_New (pStderr r)))
              else (parseNodesFromString (pStdout r), None)), s'') \<and>
      started s'' = started s' @ [(tshBinary t, [''ls'', ''--proxy='' @ host])]) \<and>
   parseNodesFromString [] = emptyNode"
proof (intro conjI impI)
  assume "Login e t now s = (Inr (Some err), s')"
  then show "ListNodes e t now s = (Inr (emptyNode, Some err), s')"
    by (rule ListNodes_login_error)
next
  assume "Login e t now s = (Inr None, s') \<and> cleanAddress e t = Inl err"
  then show "ListNodes e t now s = (Inr (emptyNode, Some err), s')"
    using ListNodes_flags_error [of e t now s s' err] by (simp add: getProxyFlags_def)
next
  assume a: "Login e t now s = (Inr None, s') \<and> cleanAddress e t = Inr host \<and>
    exec_Run e (tshBinary t) [''ls'', ''--proxy='' @ host] s' = (r, s'')"
  then have "getProxyFlags e t = Inr [''--proxy='' @ host]"
    by (simp add: getProxyFlags_def)
  with a show "ListNodes e t now s =
        (Inr (if pError r \<noteq> None then (emptyNode, pError r)
              else if pStderr r \<noteq> [] then (emptyNode, Some (errors_New (pStderr r)))
              else (parseNodesFromString (pStdout r), None)), s'')"
    using ListNodes_listing [of e t now s s' "[''--proxy='' @ host]" r s''] by blast
  from a show "started s'' = started s' @ [(tshBinary t, [''ls'', ''--proxy='' @ host])]"
    using exec_Run_started [of e "tshBinary t" "[''ls'', ''--proxy='' @ host]" s' r s''] by blast
next
  show "parseNodesFromString [] = emptyNode"
    by code_simp
qed

lemma example_Login:
  "Login (listingEnv exampleStatus exampleListing)
     (NewTSH (listingEnv exampleStatus exampleListing) (exampleProxy ''https://proxy.example.com''))
     (Date 2024 1 1 0 0 0 0) start =
   (Inr None, \<lparr>machine = (), started = [(''tsh'', [''status''])]\<rparr>)"
proof -
  let ?e = "listingEnv exampleStatus exampleListing"
  let ?t = "NewTSH ?e (exampleProxy ''https://proxy.example.com'')"
  have b: "tshBinary ?t = ''tsh''" "ProxyAddress (proxy ?t) = ''https://proxy.example.com''"
    by (simp_all add: tshBinary_def NewTSH_def exampleProxy_def)
  have "processes ?e (tshBinary ?t) [''status''] (machine start) = (wrote exampleStatus, ())"
    by (simp add: listingEnv_def scriptedEnv_def scriptOf_def)
  from isLogin_Command [OF this _ example_profiles, of "Date 2024 1 1 0 0 0 0"] times(1)
  have "isLogin ?t (Date 2024 1 1 0 0 0 0) start =
    (Inr True, \<lparr>machine = (), started = [(''tsh'', [''status''])]\<rparr>)"
    by (simp add: b start_def) (simp add: NewTSH_def)
  then show ?thesis
    by (simp add: Login_def)
qed

theorem ListNodes_flow_witness:
  "Login (scriptedEnv [] ''proxy.example.com'')
     (NewTSH (scriptedEnv [] ''proxy.example.com'') (exampleProxy ''https://proxy.example.com''))
     (Date 2024 1 1 0 0 0 0) start =
     (Inr (Some (RunError ''exit status 1'')),
      \<lparr>machine = (),
         started = [(''tsh'', [''status'']),
                    (''tsh'', [''login'', ''--proxy=proxy.example.com'', ''--user=bob''])]\<rparr>) \<and>
   ListNodes (scriptedEnv [] ''proxy.example.com'')
     (NewTSH (scriptedEnv [] ''proxy.example.com'') (exampleProxy ''https://proxy.example.com''))
     (Date 2024 1 1 0 0 0 0) start =
     (Inr (emptyNode, Some (RunError ''exit status 1'')),
      \<lparr>machine = (),
         started = [(''tsh'', [''status'']),
                    (''tsh'', [''login'', ''--proxy=proxy.example.com'', ''--user=bob''])]\<rparr>) \<and>
   cleanAddress (listingEnv tabStatus exampleListing)
     (NewTSH (listingEnv tabStatus exampleListing) (exampleProxy tabAddress)) =
     Inl (UrlError ''net/url: invalid control character in URL'') \<and>
   ListNodes (listingEnv tabStatus exampleListing)
     (NewTSH (listingEnv tabStatus exampleListing) (exampleProxy tabAddress))
     (Date 2024 1 1 0 0 0 0) start =
     (Inr (emptyNode, Some (UrlError ''net/url: invalid control character in URL'')),
      \<lparr>machine = (), started = [(''tsh'', [''status''])]\<rparr>) \<and>
   cleanAddress (listingEnv exampleStatus exampleListing)
     (NewTSH (listingEnv exampleStatus exampleListing) (exampleProxy ''https://proxy.example.com'')) =
     Inr ''proxy.example.com'' \<and>
   ListNodes (listingEnv exampleStatus exampleListing)
     (NewTSH (listingEnv exampleStatus exampleListing) (exampleProxy ''https://proxy.example.com''))
     (Date 2024 1 1 0 0 0 0) start =
     (Inr (\<lparr>Items = [\<lparr>Hostname = ''host1'', Address = ''10.0.0.1''\<rparr>]\<rparr>, None),
      \<lparr>machine = (),
         started = [(''tsh'', [''status'']), (''tsh'', [''ls'', ''--proxy=proxy.example.com''])]\<rparr>)"
proof -
  let ?now = "Date 2024 1 1 0 0 0 0"
  let ?e0 = "scriptedEnv [] ''proxy.example.com''"
  let ?t0 = "NewTSH ?e0 (exampleProxy ''https://proxy.example.com'')"
  let ?s0 = "\<lparr>machine = (),
         started = [(''tsh'', [''status'']),
                    (''tsh'', [''login'', ''--proxy=proxy.example.com'', ''--user=bob''])]\<rparr>"
  let ?e1 = "listingEnv tabStatus exampleListing"
  let ?t1 = "NewTSH ?e1 (exampleProxy tabAddress)"
  let ?s1 = "\<lparr>machine = (), started = [(''tsh'', [''status''])]\<rparr>"
  let ?e2 = "listingEnv exampleStatus exampleListing"
  let ?t2 = "NewTSH ?e2 (exampleProxy ''https://proxy.example.com'')"
  let ?s2 = "\<lparr>machine = (),
         started = [(''tsh'', [''status'']), (''tsh'', [''ls'', ''--proxy=proxy.example.com''])]\<rparr>"
  have l0: "Login ?e0 ?t0 ?now start = (Inr (Some (RunError ''exit status 1'')), ?s0)"
    by code_simp
  have c2: "cleanAddress ?e2 ?t2 = Inr ''proxy.example.com''"
    by code_simp
  have b2: "tshBinary ?t2 = ''tsh''"
    by (simp add: tshBinary_def NewTSH_def exampleProxy_def)
  have r2: "exec_Run ?e2 ''tsh'' [''ls'', ''--proxy=proxy.example.com''] ?s1 = (wrote exampleListing, ?s2)"
    by code_simp
  have p2: "parseNodesFromString exampleListing =
      \<lparr>Items = [\<lparr>Hostname = ''host1'', Address = ''10.0.0.1''\<rparr>]\<rparr>"
    by code_simp
  from ListNodes_flow [of ?e0 ?t0 ?now start "RunError ''exit status 1''" ?s0]
  have a: "ListNodes ?e0 ?t0 ?now start = (Inr (emptyNode, Some (RunError ''exit status 1'')), ?s0)"
    using l0 by blast
  from ListNodes_flow [of ?e1 ?t1 ?now start "UrlError ''net/url: invalid control character in URL''" ?s1]
  have b: "ListNodes ?e1 ?t1 ?now start =
      (Inr (emptyNode, Some (UrlError ''net/url: invalid control character in URL'')), ?s1)"
    using tab_Login tab_cleanAddress by blast
  have c: "ListNodes ?e2 ?t2 ?now start =
      (Inr (\<lparr>Items = [\<lparr>Hostname = ''host1'', Address = ''10.0.0.1''\<rparr>]\<rparr>, None), ?s2)"
    using ListNodes_flow [of ?e2 ?t2 ?now start ParseError ?s1 "''proxy.example.com''"
        "wrote exampleListing" ?s2] example_Login c2 r2
    by (simp add: b2 wrote_def p2)
  from l0 a tab_cleanAddress b c2 c show ?thesis
    by blast
qed

end
